theory Spec2Isabelle
  imports Main "HOL-Library.Word"
begin

section \<open>C <-> Caml interoperability helpers (ocaml\_utils\_stubs.c)\<close>

text \<open>
  The C functions of \<^verbatim>\<open>ocaml_utils_stubs.c\<close> are embedded as state transformers over a
  \<open>world\<close>: the managed (Caml) heap, the runtime's table of named values, the native (C)
  heap and what \<open>malloc\<close> can still hand out. A call either returns a value, diverts
  through one of the runtime's raising functions, stops at a failed \<open>assert\<close>, or has
  undefined behaviour. The data model is LP64: \<open>int\<close> and \<open>unsigned int\<close> have 32 bits,
  \<open>long\<close>, \<open>size_t\<close>, \<open>mlsize_t\<close> and pointers have 64 bits; a conversion to a signed
  type that cannot hold the value keeps the low bits (two's complement).
\<close>

subsection \<open>Values, blocks and pointers\<close>

text \<open>
  A Caml \<open>value\<close> is an immediate integer or a pointer to a block of the managed heap.
  \<open>Val_uninit\<close> is the indeterminate content of a field that \<open>caml_alloc_small\<close> has
  allocated and the program has not yet written.
\<close>

datatype mlvalue = Val_long int | Val_block nat | Val_uninit

text \<open>A block of the managed heap: a tag with fields, or the bytes of a string.\<close>

datatype mblock = Fields nat "mlvalue list" | String_block string

text \<open>
  C pointers: \<open>NULL\<close>, the base of an object obtained from \<open>malloc\<close> (or of a caller's
  variable), the bytes of a string block of the managed heap (\<open>String_val\<close>), and the
  cell of a name in the runtime's table of named values (\<open>caml_named_value\<close>).
\<close>

datatype ptr = Null | Native nat | String_data nat | Named_cell string

text \<open>
  Native objects. \<open>malloc\<close> hands out indeterminate bytes (\<open>None\<close>); an array of
  \<open>char*\<close> and an \<open>int\<close> are kept as typed objects.
\<close>

datatype nobj = Bytes "char option list" | Ptrs "ptr option list" | Int_obj "int option"

record world =
  mheap :: "mblock list"
  roots :: "mlvalue list list"
  named_values :: "string \<Rightarrow> mlvalue option"
  nheap :: "nobj list"
  navail :: nat

text \<open>How a call ends, next to the world it leaves.\<close>

datatype divert = Caml_raise mlvalue | Caml_raise_constant mlvalue | Caml_failwith string

datatype 'a outcome = Returns 'a | Diverts divert | Assert_fails | Undefined

type_synonym ('a, 'e) prog = "'e world_scheme \<Rightarrow> 'a outcome \<times> 'e world_scheme"

definition ret :: "'a \<Rightarrow> ('a, 'e) prog" where
  "ret x w = (Returns x, w)"

definition seq :: "('a, 'e) prog \<Rightarrow> ('a \<Rightarrow> ('b, 'e) prog) \<Rightarrow> ('b, 'e) prog" where
  "seq m k w =
     (case m w of
        (Returns x, w') \<Rightarrow> k x w'
      | (Diverts d, w') \<Rightarrow> (Diverts d, w')
      | (Assert_fails, w') \<Rightarrow> (Assert_fails, w')
      | (Undefined, w') \<Rightarrow> (Undefined, w'))"

definition undefined_behaviour :: "('a, 'e) prog" where
  "undefined_behaviour w = (Undefined, w)"

text \<open>\<open>assert\<close> of \<^verbatim>\<open><assert.h>\<close> (without \<open>NDEBUG\<close>): stops the program when the test fails.\<close>

definition c_assert :: "bool \<Rightarrow> (unit, 'e) prog" where
  "c_assert b w = (if b then (Returns (), w) else (Assert_fails, w))"

subsection \<open>Integer types\<close>

definition sizeof_char_ptr :: nat where
  "sizeof_char_ptr = 8"

definition INT_MAX :: int where
  "INT_MAX = 2 ^ 31 - 1"

text \<open>Conversion of a \<open>long\<close> or an \<open>mlsize_t\<close> to \<open>int\<close>: the low 32 bits, signed.\<close>

definition int_of_long :: "int \<Rightarrow> int" where
  "int_of_long n = signed_take_bit 31 n"

text \<open>Conversion of an \<open>int\<close> to \<open>size_t\<close>: modulo \<open>2 ^ 64\<close>.\<close>

definition size_t_of_int :: "int \<Rightarrow> nat" where
  "size_t_of_int k = nat (take_bit 64 k)"

text \<open>\<open>int\<close> addition; signed overflow is undefined behaviour.\<close>

definition int_add :: "int \<Rightarrow> int \<Rightarrow> (int, 'e) prog" where
  "int_add a b =
     (if a + b < - INT_MAX - 1 \<or> INT_MAX < a + b then undefined_behaviour else ret (a + b))"

subsection \<open>The Caml runtime (\<^verbatim>\<open>caml/mlvalues.h\<close>, \<^verbatim>\<open>caml/memory.h\<close>, \<^verbatim>\<open>caml/fail.h\<close>, \<^verbatim>\<open>caml/callback.h\<close>)\<close>

definition block_at :: "mlvalue \<Rightarrow> 'e world_scheme \<Rightarrow> mblock option" where
  "block_at v w =
     (case v of
        Val_block a \<Rightarrow> (if a < length (mheap w) then Some (mheap w ! a) else None)
      | _ \<Rightarrow> None)"

definition Is_long :: "mlvalue \<Rightarrow> bool" where
  "Is_long v = (case v of Val_long _ \<Rightarrow> True | _ \<Rightarrow> False)"

definition Is_block :: "mlvalue \<Rightarrow> bool" where
  "Is_block v = (case v of Val_block _ \<Rightarrow> True | _ \<Rightarrow> False)"

definition Long_val :: "mlvalue \<Rightarrow> (int, 'e) prog" where
  "Long_val v = (case v of Val_long n \<Rightarrow> ret n | _ \<Rightarrow> undefined_behaviour)"

text \<open>
  The size of a block in words: its number of fields; for a string of \<open>n\<close> bytes,
  \<open>n div 8 + 1\<close> words (the bytes, then padding that starts with a zero byte).
\<close>

definition Wosize_val :: "mlvalue \<Rightarrow> (nat, 'e) prog" where
  "Wosize_val v w =
     (case block_at v w of
        Some (Fields t vs) \<Rightarrow> ret (length vs) w
      | Some (String_block s) \<Rightarrow> ret (length s div 8 + 1) w
      | None \<Rightarrow> undefined_behaviour w)"

definition Field :: "mlvalue \<Rightarrow> nat \<Rightarrow> (mlvalue, 'e) prog" where
  "Field v i w =
     (case block_at v w of
        Some (Fields t vs) \<Rightarrow> (if i < length vs then ret (vs ! i) w else undefined_behaviour w)
      | _ \<Rightarrow> undefined_behaviour w)"

text \<open>The assignment \<open>Field(v, i) = x\<close>.\<close>

definition set_Field :: "mlvalue \<Rightarrow> nat \<Rightarrow> mlvalue \<Rightarrow> (unit, 'e) prog" where
  "set_Field v i x w =
     (case v of
        Val_block a \<Rightarrow>
          (case block_at v w of
             Some (Fields t vs) \<Rightarrow>
               (if i < length vs
                then ret () (w\<lparr>mheap := (mheap w)[a := Fields t (vs[i := x])]\<rparr>)
                else undefined_behaviour w)
           | _ \<Rightarrow> undefined_behaviour w)
      | _ \<Rightarrow> undefined_behaviour w)"

definition caml_string_length :: "mlvalue \<Rightarrow> (nat, 'e) prog" where
  "caml_string_length v w =
     (case block_at v w of
        Some (String_block s) \<Rightarrow> ret (length s) w
      | _ \<Rightarrow> undefined_behaviour w)"

definition String_val :: "mlvalue \<Rightarrow> (ptr, 'e) prog" where
  "String_val v = (case v of Val_block a \<Rightarrow> ret (String_data a) | _ \<Rightarrow> undefined_behaviour)"

text \<open>
  \<open>caml_alloc_small(wosize, tag)\<close>: a new block at the end of the managed heap, its
  fields not yet initialised. The runtime's own allocator is taken to succeed.
\<close>

definition caml_alloc_small :: "nat \<Rightarrow> nat \<Rightarrow> (mlvalue, 'e) prog" where
  "caml_alloc_small wosize t w =
     (Returns (Val_block (length (mheap w))),
      w\<lparr>mheap := mheap w @ [Fields t (replicate wosize Val_uninit)]\<rparr>)"

text \<open>\<open>Begin_roots3\<close> and \<open>End_roots\<close>: push and pop a frame of local roots.\<close>

definition Begin_roots3 :: "mlvalue \<Rightarrow> mlvalue \<Rightarrow> mlvalue \<Rightarrow> (unit, 'e) prog" where
  "Begin_roots3 a b c w = (Returns (), w\<lparr>roots := [a, b, c] # roots w\<rparr>)"

definition End_roots :: "(unit, 'e) prog" where
  "End_roots w = (Returns (), w\<lparr>roots := tl (roots w)\<rparr>)"

definition caml_raise :: "mlvalue \<Rightarrow> ('a, 'e) prog" where
  "caml_raise v w = (Diverts (Caml_raise v), w)"

definition caml_raise_constant :: "mlvalue \<Rightarrow> ('a, 'e) prog" where
  "caml_raise_constant t w = (Diverts (Caml_raise_constant t), w)"

definition caml_failwith :: "string \<Rightarrow> ('a, 'e) prog" where
  "caml_failwith msg w = (Diverts (Caml_failwith msg), w)"

text \<open>\<open>caml_named_value\<close>: the cell of a registered name, \<open>NULL\<close> for any other name.\<close>

definition caml_named_value :: "string \<Rightarrow> (ptr, 'e) prog" where
  "caml_named_value n w =
     (case named_values w n of None \<Rightarrow> ret Null w | Some v \<Rightarrow> ret (Named_cell n) w)"

text \<open>Reading through a \<open>value*\<close>.\<close>

definition load_value :: "ptr \<Rightarrow> (mlvalue, 'e) prog" where
  "load_value p w =
     (case p of
        Named_cell n \<Rightarrow>
          (case named_values w n of Some v \<Rightarrow> ret v w | None \<Rightarrow> undefined_behaviour w)
      | _ \<Rightarrow> undefined_behaviour w)"

subsection \<open>The C library\<close>

text \<open>
  \<open>malloc\<close>: a new object of \<open>sz\<close> indeterminate bytes at a new address, or \<open>NULL\<close>
  when the request exceeds what is left.
\<close>

definition malloc :: "nat \<Rightarrow> (ptr, 'e) prog" where
  "malloc sz w =
     (if sz \<le> navail w
      then (Returns (Native (length (nheap w))),
            w\<lparr>nheap := nheap w @ [Bytes (replicate sz None)], navail := navail w - sz\<rparr>)
      else (Returns Null, w))"

text \<open>
  The bytes a \<open>char*\<close> points to. A string block holds its bytes and then a zero byte
  (the padding behind it is not modelled: reading it is \<open>Undefined\<close>).
\<close>

definition load_bytes :: "ptr \<Rightarrow> nat \<Rightarrow> (string, 'e) prog" where
  "load_bytes p n w =
     (case p of
        String_data a \<Rightarrow>
          (case block_at (Val_block a) w of
             Some (String_block s) \<Rightarrow>
               (if n \<le> length s + 1 then ret (take n (s @ [CHR 0x00])) w
                else undefined_behaviour w)
           | _ \<Rightarrow> undefined_behaviour w)
      | Native a \<Rightarrow>
          (if a < length (nheap w)
           then (case nheap w ! a of
                   Bytes bs \<Rightarrow>
                     (if n \<le> length bs \<and> list_all (\<lambda>b. b \<noteq> None) (take n bs)
                      then ret (map the (take n bs)) w
                      else undefined_behaviour w)
                 | _ \<Rightarrow> undefined_behaviour w)
           else undefined_behaviour w)
      | _ \<Rightarrow> undefined_behaviour w)"

definition store_bytes :: "ptr \<Rightarrow> string \<Rightarrow> (unit, 'e) prog" where
  "store_bytes p cs w =
     (case p of
        Native a \<Rightarrow>
          (if a < length (nheap w)
           then (case nheap w ! a of
                   Bytes bs \<Rightarrow>
                     (if length cs \<le> length bs
                      then ret () (w\<lparr>nheap := (nheap w)[a := Bytes (map Some cs @ drop (length cs) bs)]\<rparr>)
                      else undefined_behaviour w)
                 | _ \<Rightarrow> undefined_behaviour w)
           else undefined_behaviour w)
      | _ \<Rightarrow> undefined_behaviour w)"

definition memcpy :: "ptr \<Rightarrow> ptr \<Rightarrow> nat \<Rightarrow> (unit, 'e) prog" where
  "memcpy dst src n = seq (load_bytes src n) (\<lambda>cs. store_bytes dst cs)"

text \<open>
  An object seen as an array of \<open>char*\<close>: a typed array, or storage from \<open>malloc\<close>
  that has not been written yet.
\<close>

definition ptr_slots :: "nobj \<Rightarrow> ptr option list option" where
  "ptr_slots obj =
     (case obj of
        Ptrs ps \<Rightarrow> Some ps
      | Bytes bs \<Rightarrow>
          (if list_all (\<lambda>b. b = None) bs
           then Some (replicate (length bs div sizeof_char_ptr) None) else None)
      | Int_obj _ \<Rightarrow> None)"

text \<open>The assignment \<open>a[i] = q\<close> for \<open>const char** a\<close>.\<close>

definition store_ptr :: "ptr \<Rightarrow> nat \<Rightarrow> ptr \<Rightarrow> (unit, 'e) prog" where
  "store_ptr p i q w =
     (case p of
        Native a \<Rightarrow>
          (if a < length (nheap w)
           then (case ptr_slots (nheap w ! a) of
                   Some ps \<Rightarrow>
                     (if i < length ps
                      then ret () (w\<lparr>nheap := (nheap w)[a := Ptrs (ps[i := Some q])]\<rparr>)
                      else undefined_behaviour w)
                 | None \<Rightarrow> undefined_behaviour w)
           else undefined_behaviour w)
      | _ \<Rightarrow> undefined_behaviour w)"

text \<open>The assignment \<open>*p = x\<close> for \<open>int* p\<close>.\<close>

definition store_int :: "ptr \<Rightarrow> int \<Rightarrow> (unit, 'e) prog" where
  "store_int p x w =
     (case p of
        Native a \<Rightarrow>
          (if a < length (nheap w)
           then (case nheap w ! a of
                   Int_obj _ \<Rightarrow> ret () (w\<lparr>nheap := (nheap w)[a := Int_obj (Some x)]\<rparr>)
                 | _ \<Rightarrow> undefined_behaviour w)
           else undefined_behaviour w)
      | _ \<Rightarrow> undefined_behaviour w)"

text \<open>
  \<open>snprintf(msg, size, "%s not registered.", n)\<close>: the formatted text, cut to
  \<open>size - 1\<close> bytes so that the terminator fits.
\<close>

definition snprintf_not_registered :: "nat \<Rightarrow> string \<Rightarrow> string" where
  "snprintf_not_registered sz n = take (sz - 1) (n @ '' not registered.'')"

subsection \<open>The macros of \<^verbatim>\<open>ocaml_utils_macros.h\<close>\<close>

text \<open>
  Modelled from the spec: the header \<^verbatim>\<open>ocaml_utils_macros.h\<close> is not among the
  sources. An option is "none" or "some(x)", told apart by its tag: "none" is the
  immediate value 0, "some(x)" a block of tag 0 with the one field \<open>x\<close>.
\<close>

definition Is_none :: "mlvalue \<Rightarrow> bool" where
  "Is_none v = (v = Val_long 0)"

text \<open>
  Modelled from the spec: the macro \<open>Is_some\<close> of \<^verbatim>\<open>ocaml_utils_macros.h\<close>, the
  "some(x)" side of the option encoding.
\<close>

definition Is_some :: "mlvalue \<Rightarrow> 'e world_scheme \<Rightarrow> bool" where
  "Is_some v w = (case block_at v w of Some (Fields t vs) \<Rightarrow> t = 0 \<and> length vs = 1 | _ \<Rightarrow> False)"

text \<open>Modelled from the spec: "input must be tagged as a string".\<close>

definition Is_string :: "mlvalue \<Rightarrow> 'e world_scheme \<Rightarrow> bool" where
  "Is_string v w = (case block_at v w of Some (String_block s) \<Rightarrow> True | _ \<Rightarrow> False)"

text \<open>Modelled from the spec: "input tagged as a string option".\<close>

definition Is_string_option :: "mlvalue \<Rightarrow> 'e world_scheme \<Rightarrow> bool" where
  "Is_string_option v w =
     (Is_none v \<or>
      (case block_at v w of
         Some (Fields t vs) \<Rightarrow> t = 0 \<and> length vs = 1 \<and> Is_string (vs ! 0) w
       | _ \<Rightarrow> False))"

text \<open>Modelled from the spec: "input tagged as an integer option".\<close>

definition Is_int_option :: "mlvalue \<Rightarrow> 'e world_scheme \<Rightarrow> bool" where
  "Is_int_option v w =
     (Is_none v \<or>
      (case block_at v w of
         Some (Fields t vs) \<Rightarrow> t = 0 \<and> length vs = 1 \<and> Is_long (vs ! 0)
       | _ \<Rightarrow> False))"

subsection \<open>Exceptions\<close>

definition raise_with_two_args :: "mlvalue \<Rightarrow> mlvalue \<Rightarrow> mlvalue \<Rightarrow> (unit, 'e) prog" where
  "raise_with_two_args t arg1 arg2 =
     seq (Begin_roots3 t arg1 arg2) (\<lambda>_.
     seq (caml_alloc_small 3 0) (\<lambda>v_exc.
     seq (set_Field v_exc 0 t) (\<lambda>_.
     seq (set_Field v_exc 1 arg1) (\<lambda>_.
     seq (set_Field v_exc 2 arg2) (\<lambda>_.
     seq End_roots (\<lambda>_.
     caml_raise v_exc))))))"

definition named_value_exn :: "string \<Rightarrow> (ptr, 'e) prog" where
  "named_value_exn n =
     seq (caml_named_value n) (\<lambda>v.
     seq (if v = Null
          then caml_failwith (snprintf_not_registered 256 n)
          else ret ()) (\<lambda>_.
     ret v))"

definition raise_out_of_memory :: "(unit, 'e) prog" where
  "raise_out_of_memory =
     seq (named_value_exn ''Out_of_memory'') (\<lambda>out_of_memory.
     seq (c_assert (out_of_memory \<noteq> Null)) (\<lambda>_.
     seq (load_value out_of_memory) (\<lambda>exn.
     caml_raise_constant exn)))"

definition malloc_exn :: "nat \<Rightarrow> (ptr, 'e) prog" where
  "malloc_exn sz =
     seq (malloc sz) (\<lambda>p.
     seq (if p = Null then raise_out_of_memory else ret ()) (\<lambda>_.
     ret p))"

subsection \<open>Strings and options\<close>

definition string_ocaml_to_c :: "mlvalue \<Rightarrow> (ptr, 'e) prog" where
  "string_ocaml_to_c s_v =
     seq (\<lambda>w. c_assert (Is_string s_v w) w) (\<lambda>_.
     seq (caml_string_length s_v) (\<lambda>n.
     let len = int_of_long (int n) in
     seq (int_add len 1) (\<lambda>len1.
     seq (malloc_exn (size_t_of_int len1)) (\<lambda>s.
     seq (String_val s_v) (\<lambda>src.
     seq (int_add len 1) (\<lambda>len1'.
     seq (memcpy s src (size_t_of_int len1')) (\<lambda>_.
     ret s)))))))"

definition string_of_ocaml_string_option :: "mlvalue \<Rightarrow> (ptr, 'e) prog" where
  "string_of_ocaml_string_option v =
     seq (\<lambda>w. c_assert (Is_string_option v w) w) (\<lambda>_.
     if Is_none v then ret Null
     else seq (Field v 0) string_ocaml_to_c)"

definition int_of_ocaml_int_option :: "mlvalue \<Rightarrow> ptr \<Rightarrow> (int, 'e) prog" where
  "int_of_ocaml_int_option v i =
     seq (\<lambda>w. c_assert (Is_int_option v w) w) (\<lambda>_.
     seq (\<lambda>w. if Is_some v w
               then seq (Field v 0) (\<lambda>x. seq (Long_val x) (\<lambda>n. store_int i (int_of_long n))) w
               else ret () w) (\<lambda>_.
     ret (if Is_none v then 0 else 1)))"

subsection \<open>Arrays\<close>

text \<open>
  The loop of \<open>array_map\<close>, from index \<open>i\<close>; \<open>i\<close> and \<open>len\<close> are \<open>unsigned int\<close>.
  The parameter \<open>f\<close> is the source's \<open>f__must_not_allocate_on_caml_heap\<close>.
\<close>

function array_map_loop ::
  "(mlvalue \<Rightarrow> (ptr, 'e) prog) \<Rightarrow> mlvalue \<Rightarrow> ptr \<Rightarrow> 32 word \<Rightarrow> 32 word \<Rightarrow> (unit, 'e) prog" where
  "array_map_loop f array new_array i len w =
     (if i < len
      then (case seq (Field array (unat i)) (\<lambda>v.
                 seq (f v) (\<lambda>p.
                 store_ptr new_array (unat i) p)) w of
              (Returns u, w') \<Rightarrow> array_map_loop f array new_array (i + 1) len w'
            | (Diverts d, w') \<Rightarrow> (Diverts d, w')
            | (Assert_fails, w') \<Rightarrow> (Assert_fails, w')
            | (Undefined, w') \<Rightarrow> (Undefined, w'))
      else (Returns (), w))"
  by pat_completeness auto
termination
proof (relation "measure (\<lambda>(f, array, new_array, i, len, w). unat len - unat i)")
  show "wf (measure (\<lambda>(f :: mlvalue \<Rightarrow> (ptr, 'e) prog, array :: mlvalue, new_array :: ptr,
                          i :: 32 word, len :: 32 word, w :: 'e world_scheme). unat len - unat i))"
    by simp
next
  fix f :: "mlvalue \<Rightarrow> (ptr, 'e) prog" and array :: mlvalue and new_array :: ptr
    and i len :: "32 word" and w w' :: "'e world_scheme"
  assume "i < len"
  then have "unat (i + 1) = Suc (unat i)"
    by unat_arith
  with \<open>i < len\<close>
  show "((f, array, new_array, i + 1, len, w'), (f, array, new_array, i, len, w))
        \<in> measure (\<lambda>(f, array, new_array, i, len, w). unat len - unat i)"
    by (simp add: word_less_nat_alt)
qed

declare array_map_loop.simps [simp del]

definition array_map :: "mlvalue \<Rightarrow> (mlvalue \<Rightarrow> (ptr, 'e) prog) \<Rightarrow> (ptr, 'e) prog" where
  "array_map array f =
     seq (Wosize_val array) (\<lambda>n.
     let len = (word_of_nat n :: 32 word) in
     if len = 0 then ret Null
     else seq (malloc_exn (sizeof_char_ptr * unat len)) (\<lambda>new_array.
          seq (array_map_loop f array new_array 0 len) (\<lambda>_.
          ret new_array)))"


subsection \<open>Conversion functions\<close>

text \<open>
  The precondition that the name \<open>f__must_not_allocate_on_caml_heap\<close> states: a call of
  \<open>f\<close> leaves the managed heap as it is.
\<close>

definition keeps_managed_heap :: "(mlvalue \<Rightarrow> (ptr, 'e) prog) \<Rightarrow> bool" where
  "keeps_managed_heap f = (\<forall>v w. mheap (snd (f v w)) = mheap w)"

text \<open>
  A C function cannot reach native objects it was given no pointer to: a call of \<open>f\<close>
  may add native objects, and leaves those that exist as they are.
\<close>

definition keeps_native_objects :: "(mlvalue \<Rightarrow> (ptr, 'e) prog) \<Rightarrow> bool" where
  "keeps_native_objects f = (\<forall>v w. \<exists>ys. nheap (snd (f v w)) = nheap w @ ys)"


text \<open>
  Observing the calls of a conversion function: the world is extended by a log, and
  \<open>observed array f\<close> behaves as \<open>f\<close> and appends to the log, at each call, its argument
  and the block that \<open>array\<close> points to as it is when the call is made.
\<close>

type_synonym call_log = "(mlvalue \<times> mblock option) list"

definition observed ::
  "mlvalue \<Rightarrow> (mlvalue \<Rightarrow> (ptr, call_log) prog) \<Rightarrow> mlvalue \<Rightarrow> (ptr, call_log) prog" where
  "observed array f v w =
     (case f v w of
        (r, w') \<Rightarrow> (r, w'\<lparr>world.more := world.more w' @ [(v, block_at array w)]\<rparr>))"

text \<open>The function under observation does not write the log itself.\<close>

definition keeps_log :: "(mlvalue \<Rightarrow> (ptr, call_log) prog) \<Rightarrow> bool" where
  "keeps_log f = (\<forall>v w. world.more (snd (f v w)) = world.more w)"



section \<open>Concrete worlds\<close>

text \<open>An empty world: nothing allocated, no name registered, no memory left for \<open>malloc\<close>.\<close>

definition world0 :: world where
  "world0 = \<lparr>mheap = [], roots = [], named_values = (\<lambda>n. None), nheap = [], navail = 0\<rparr>"

text \<open>The exception \<open>Out_of_memory\<close> is registered under its name (as an immediate value here).\<close>

definition world_oom :: world where
  "world_oom = world0\<lparr>named_values := (\<lambda>n. if n = ''Out_of_memory'' then Some (Val_long 7) else None)\<rparr>"

text \<open>The string \<open>"hi"\<close> at address 0 and the option \<open>Some "hi"\<close> at address 1; 16 bytes left.\<close>

definition world_hi :: world where
  "world_hi = world_oom\<lparr>mheap := [String_block ''hi'', Fields 0 [Val_block 0]], navail := 16\<rparr>"

text \<open>
  The options \<open>Some 42\<close> and \<open>Some 2147483648\<close> at addresses 0 and 1, and a native
  \<open>int\<close> holding 5 at native address 0.
\<close>

definition world_int :: world where
  "world_int = world0\<lparr>mheap := [Fields 0 [Val_long 42], Fields 0 [Val_long 2147483648]],
                      nheap := [Int_obj (Some 5)]\<rparr>"

text \<open>The empty array at address 0; 100 bytes left.\<close>

definition world_empty_array :: world where
  "world_empty_array = world0\<lparr>mheap := [Fields 0 []], navail := 100\<rparr>"

text \<open>
  The strings \<open>"hi"\<close> and \<open>"caml"\<close> at addresses 0 and 1, the array of both at address
  2; \<open>Out_of_memory\<close> registered, 100 bytes left, and an empty log of calls.
\<close>

definition world_strs :: "call_log world_scheme" where
  "world_strs =
     \<lparr>mheap = [String_block ''hi'', String_block ''caml'', Fields 0 [Val_block 0, Val_block 1]],
      roots = [],
      named_values = (\<lambda>n. if n = ''Out_of_memory'' then Some (Val_long 7) else None),
      nheap = [], navail = 100, \<dots> = []\<rparr>"

section \<open>Properties\<close>

lemmas prog_defs = ret_def seq_def undefined_behaviour_def c_assert_def

lemma seq_Returns:
  "seq m k w = (Returns y, w') \<longleftrightarrow> (\<exists>x w1. m w = (Returns x, w1) \<and> k x w1 = (Returns y, w'))"
  by (auto simp add: seq_def split: prod.splits outcome.splits)

lemma int_of_long_small: "- (2 ^ 31) \<le> n \<Longrightarrow> n < 2 ^ 31 \<Longrightarrow> int_of_long n = n"
  by (simp add: int_of_long_def signed_take_bit_int_eq_self)

lemma size_t_of_int_small: "0 \<le> k \<Longrightarrow> k < 2 ^ 64 \<Longrightarrow> size_t_of_int k = nat k"
  by (simp add: size_t_of_int_def take_bit_int_eq_self)

subsection \<open>Exceptions\<close>

text \<open>
  C7. For every tag and pair of arguments, \<open>raise_with_two_args\<close> allocates a new block of
  three fields and tag 0 on the managed heap, whose field 0 is the tag, field 1 the first
  argument and field 2 the second, and then diverts through \<open>caml_raise\<close> with that block;
  it never returns normally. The frame of roots it pushed is popped again.
\<close>

theorem raise_with_two_args_diverts:
  "raise_with_two_args t arg1 arg2 w =
     (Diverts (Caml_raise (Val_block (length (mheap w)))),
      w\<lparr>mheap := mheap w @ [Fields 0 [t, arg1, arg2]]\<rparr>) \<and>
   (\<forall>w'. raise_with_two_args t arg1 arg2 w \<noteq> (Returns (), w'))"
  by (simp add: raise_with_two_args_def prog_defs Begin_roots3_def End_roots_def
      caml_alloc_small_def set_Field_def block_at_def caml_raise_def
      numeral_3_eq_3 numeral_2_eq_2)

text \<open>
  C3 (as amended). For every name \<open>n\<close> that is not registered, \<open>named_value_exn n\<close> diverts
  through \<open>caml_failwith\<close> and leaves the world as it was; the message is the text
  \<open>n\<close> followed by \<open>" not registered."\<close>, cut to the 255 bytes that fit the buffer
  \<open>msg[256]\<close>. It is that whole text, and so contains \<open>n\<close>, when \<open>n\<close> has at most 239 bytes.
\<close>

theorem named_value_exn_unregistered:
  "named_values w n = None \<Longrightarrow>
     named_value_exn n w = (Diverts (Caml_failwith (take 255 (n @ '' not registered.''))), w) \<and>
     (length n \<le> 239 \<longrightarrow> take 255 (n @ '' not registered.'') = n @ '' not registered.'')"
  by (simp add: named_value_exn_def prog_defs caml_named_value_def caml_failwith_def
      snprintf_not_registered_def)

theorem named_value_exn_unregistered_witness:
  "named_values world0 ''Out_of_memory'' = None \<and>
   named_value_exn ''Out_of_memory'' world0 =
     (Diverts (Caml_failwith ''Out_of_memory not registered.''), world0)"
  using named_value_exn_unregistered [of world0 "''Out_of_memory''"]
  by (simp add: world0_def)

lemma raise_out_of_memory_diverts: "\<exists>d. raise_out_of_memory w = (Diverts d, w)"
  by (auto simp add: raise_out_of_memory_def named_value_exn_def prog_defs caml_named_value_def
      caml_failwith_def load_value_def caml_raise_constant_def split: option.splits)

text \<open>
  C8. Whenever \<open>named_value_exn n\<close> returns normally, the pointer it returns is not
  \<open>NULL\<close>: it is the cell of \<open>n\<close> in the table of named values, the world is unchanged,
  and reading through the pointer yields the value registered under \<open>n\<close>. So
  \<open>raise_out_of_memory\<close>, which reads through it without a test of its own, always ends
  in a raise: its \<open>assert\<close> never fails and its read is never undefined.
\<close>

theorem named_value_exn_nonnull:
  "(named_value_exn n w = (Returns p, w') \<longrightarrow>
      p \<noteq> Null \<and> p = Named_cell n \<and> w' = w \<and>
      (\<exists>v. named_values w n = Some v \<and> load_value p w' = (Returns v, w'))) \<and>
   (\<exists>d. raise_out_of_memory w = (Diverts d, w))"
  using raise_out_of_memory_diverts [of w]
  by (auto simp add: named_value_exn_def prog_defs caml_named_value_def caml_failwith_def
      load_value_def split: option.splits if_splits)

text \<open>
  The counterexample to C3 as stated: for an unregistered name of 300 bytes the message
  is 255 bytes of the name, shorter than the name itself, and not
  \<open>"<n> not registered."\<close>.
\<close>

theorem named_value_exn_long_name:
  "named_values world0 (replicate 300 (CHR ''a'')) = None \<and>
   named_value_exn (replicate 300 (CHR ''a'')) world0 =
     (Diverts (Caml_failwith (replicate 255 (CHR ''a''))), world0) \<and>
   length (replicate 255 (CHR ''a'')) < length (replicate 300 (CHR ''a''))"
  by (simp add: named_value_exn_def prog_defs caml_named_value_def caml_failwith_def
      snprintf_not_registered_def world0_def)

theorem named_value_exn_nonnull_witness:
  "named_value_exn ''Out_of_memory'' world_oom =
     (Returns (Named_cell ''Out_of_memory''), world_oom) \<and>
   Named_cell ''Out_of_memory'' \<noteq> Null"
proof -
  have r: "named_value_exn ''Out_of_memory'' world_oom =
             (Returns (Named_cell ''Out_of_memory''), world_oom)"
    by (simp add: named_value_exn_def prog_defs caml_named_value_def world_oom_def world0_def)
  from named_value_exn_nonnull [THEN conjunct1, THEN mp, OF r] r show ?thesis by simp
qed

subsection \<open>Out of memory\<close>


text \<open>
  C4 (as amended). For every size, \<open>malloc_exn\<close> returns a pointer to a new object of
  that many bytes when \<open>malloc\<close> succeeds. When \<open>malloc\<close> fails it does not return: it
  ends as \<open>raise_out_of_memory\<close> ends, which is \<open>caml_raise_constant\<close> with the value
  registered under \<open>"Out_of_memory"\<close> when that name is registered, and the failure
  \<open>"Out_of_memory not registered."\<close> when it is not. It never returns \<open>NULL\<close>.
\<close>

theorem malloc_exn_outcome:
  "(sz \<le> navail w \<longrightarrow>
      malloc_exn sz w =
        (Returns (Native (length (nheap w))),
         w\<lparr>nheap := nheap w @ [Bytes (replicate sz None)], navail := navail w - sz\<rparr>)) \<and>
   (navail w < sz \<longrightarrow> named_values w ''Out_of_memory'' = Some exn \<longrightarrow>
      malloc_exn sz w = (Diverts (Caml_raise_constant exn), w)) \<and>
   (navail w < sz \<longrightarrow> named_values w ''Out_of_memory'' = None \<longrightarrow>
      malloc_exn sz w = (Diverts (Caml_failwith ''Out_of_memory not registered.''), w)) \<and>
   (navail w < sz \<longrightarrow>
      (\<exists>d. raise_out_of_memory w = (Diverts d, w) \<and> malloc_exn sz w = (Diverts d, w))) \<and>
   (\<forall>w'. malloc_exn sz w \<noteq> (Returns Null, w'))"
  by (auto simp add: malloc_exn_def malloc_def raise_out_of_memory_def named_value_exn_def
      prog_defs caml_named_value_def caml_failwith_def load_value_def caml_raise_constant_def
      snprintf_not_registered_def split: option.splits if_splits)

theorem malloc_exn_outcome_witness:
  "malloc_exn 4 (world_oom\<lparr>navail := 10\<rparr>) =
     (Returns (Native 0), world_oom\<lparr>nheap := [Bytes [None, None, None, None]], navail := 6\<rparr>) \<and>
   malloc_exn 4 world_oom = (Diverts (Caml_raise_constant (Val_long 7)), world_oom) \<and>
   malloc_exn 4 world0 = (Diverts (Caml_failwith ''Out_of_memory not registered.''), world0)"
  using malloc_exn_outcome [of 4 "world_oom\<lparr>navail := 10\<rparr>" "Val_long 7"]
    malloc_exn_outcome [of 4 world_oom "Val_long 7"]
    malloc_exn_outcome [of 4 world0 "Val_long 7"]
  by (simp add: world_oom_def world0_def numeral_eq_Suc)

text \<open>
  The counterexample to C4 as stated: with no memory left and \<open>"Out_of_memory"\<close> not
  registered, \<open>malloc_exn 1\<close> diverts with a failure, not with the out-of-memory exception.
\<close>

theorem malloc_exn_unregistered:
  "malloc_exn 1 world0 = (Diverts (Caml_failwith ''Out_of_memory not registered.''), world0)"
  by (simp add: malloc_exn_def malloc_def raise_out_of_memory_def named_value_exn_def prog_defs
      caml_named_value_def caml_failwith_def snprintf_not_registered_def world0_def)

subsection \<open>Strings and options\<close>


lemma string_length_fits:
  assumes "length s + 1 < 2 ^ 31"
  shows "int_of_long (int (length s)) = int (length s)"
    and "size_t_of_int (int (length s) + 1) = length s + 1"
    and "\<not> (int (length s) + 1 < - INT_MAX - 1 \<or> INT_MAX < int (length s) + 1)"
proof -
  show "int_of_long (int (length s)) = int (length s)"
    using assms by (intro int_of_long_small) simp_all
  show "size_t_of_int (int (length s) + 1) = length s + 1"
    using assms by (subst size_t_of_int_small) simp_all
  show "\<not> (int (length s) + 1 < - INT_MAX - 1 \<or> INT_MAX < int (length s) + 1)"
    using assms by (simp add: INT_MAX_def)
qed

lemma string_ocaml_to_c_copy:
  assumes "block_at x w = Some (String_block s)" and "length s + 1 < 2 ^ 31"
    and "length s + 1 \<le> navail w"
  shows "string_ocaml_to_c x w =
           (Returns (Native (length (nheap w))),
            w\<lparr>nheap := nheap w @ [Bytes (map Some (s @ [CHR 0x00]))],
              navail := navail w - (length s + 1)\<rparr>)"
proof -
  obtain b where x: "x = Val_block b"
    using assms(1) by (cases x) (simp_all add: block_at_def)
  have b: "b < length (mheap w)" "mheap w ! b = String_block s"
    using assms(1) by (auto simp add: x block_at_def split: if_splits)
  show ?thesis
    using b assms(3) string_length_fits(3) [OF assms(2)]
    by (simp add: string_ocaml_to_c_def prog_defs Is_string_def caml_string_length_def
        string_length_fits(1,2) [OF assms(2)] int_add_def malloc_exn_def malloc_def
        String_val_def x memcpy_def load_bytes_def store_bytes_def block_at_def nth_append
        Let_def)
qed

lemma string_ocaml_to_c_out_of_memory:
  assumes "block_at x w = Some (String_block s)" and "length s + 1 < 2 ^ 31"
    and "navail w < length s + 1" and "raise_out_of_memory w = (Diverts d, w)"
  shows "string_ocaml_to_c x w = (Diverts d, w)"
proof -
  have m: "malloc_exn (length s + 1) w = (Diverts d, w)"
    using assms(3,4) by (simp add: malloc_exn_def malloc_def prog_defs)
  show ?thesis
    using assms(1) string_length_fits(3) [OF assms(2)] m
    by (simp add: string_ocaml_to_c_def seq_def c_assert_def ret_def Is_string_def
        caml_string_length_def string_length_fits(1,2) [OF assms(2)] int_add_def Let_def)
qed

text \<open>
  C1 (as amended). For a valid string option: "none" gives the \<open>NULL\<close> pointer and leaves
  the world as it was. "some(s)", for \<open>s\<close> of fewer than \<open>2^31 - 1\<close> bytes, gives, when
  \<open>malloc\<close> has \<open>length s + 1\<close> bytes left, a pointer to a new native object (at an address
  no native object had, and not a pointer into the managed heap) of \<open>length s + 1\<close> bytes:
  the bytes of \<open>s\<close> and then one zero byte; the managed heap and all other native objects
  are as they were. When \<open>malloc\<close> has fewer bytes left, the call does not return: it
  diverts as \<open>raise_out_of_memory\<close> does.
\<close>

theorem string_of_ocaml_string_option_result:
  "(v = Val_long 0 \<longrightarrow> string_of_ocaml_string_option v w = (Returns Null, w)) \<and>
   (block_at v w = Some (Fields 0 [x]) \<longrightarrow> block_at x w = Some (String_block s) \<longrightarrow>
    length s + 1 < 2 ^ 31 \<longrightarrow>
      (length s + 1 \<le> navail w \<longrightarrow>
         string_of_ocaml_string_option v w =
           (Returns (Native (length (nheap w))),
            w\<lparr>nheap := nheap w @ [Bytes (map Some (s @ [CHR 0x00]))],
              navail := navail w - (length s + 1)\<rparr>)) \<and>
      (navail w < length s + 1 \<longrightarrow>
         (\<exists>d. raise_out_of_memory w = (Diverts d, w) \<and>
              string_of_ocaml_string_option v w = (Diverts d, w))))"
proof (intro conjI impI)
  assume "v = Val_long 0"
  then show "string_of_ocaml_string_option v w = (Returns Null, w)"
    by (simp add: string_of_ocaml_string_option_def prog_defs Is_string_option_def Is_none_def)
next
  assume v: "block_at v w = Some (Fields 0 [x])" and x: "block_at x w = Some (String_block s)"
    and l: "length s + 1 < 2 ^ 31" and a: "length s + 1 \<le> navail w"
  have nn: "\<not> Is_none v"
    using v by (auto simp add: Is_none_def block_at_def)
  have so: "Is_string_option v w"
    using v x by (simp add: Is_string_option_def Is_string_def)
  have step: "string_of_ocaml_string_option v w = string_ocaml_to_c x w"
    using v by (simp add: string_of_ocaml_string_option_def prog_defs nn so Field_def)
  show "string_of_ocaml_string_option v w =
        (Returns (Native (length (nheap w))),
         w\<lparr>nheap := nheap w @ [Bytes (map Some (s @ [CHR 0x00]))],
           navail := navail w - (length s + 1)\<rparr>)"
    using string_ocaml_to_c_copy [OF x l a] step by simp
next
  assume v: "block_at v w = Some (Fields 0 [x])" and x: "block_at x w = Some (String_block s)"
    and l: "length s + 1 < 2 ^ 31" and a: "navail w < length s + 1"
  have nn: "\<not> Is_none v"
    using v by (auto simp add: Is_none_def block_at_def)
  have so: "Is_string_option v w"
    using v x by (simp add: Is_string_option_def Is_string_def)
  have step: "string_of_ocaml_string_option v w = string_ocaml_to_c x w"
    using v by (simp add: string_of_ocaml_string_option_def prog_defs nn so Field_def)
  obtain d where d: "raise_out_of_memory w = (Diverts d, w)"
    using raise_out_of_memory_diverts by blast
  show "\<exists>d. raise_out_of_memory w = (Diverts d, w) \<and>
            string_of_ocaml_string_option v w = (Diverts d, w)"
    using string_ocaml_to_c_out_of_memory [OF x l a d] step d by simp
qed

theorem string_of_ocaml_string_option_result_witness:
  "Is_string_option (Val_long 0) world_hi \<and>
   string_of_ocaml_string_option (Val_long 0) world_hi = (Returns Null, world_hi) \<and>
   Is_string_option (Val_block 1) world_hi \<and>
   string_of_ocaml_string_option (Val_block 1) world_hi =
     (Returns (Native 0),
      world_hi\<lparr>nheap := [Bytes [Some (CHR ''h''), Some (CHR ''i''), Some (CHR 0x00)]],
               navail := 13\<rparr>) \<and>
   string_of_ocaml_string_option (Val_block 1) (world_hi\<lparr>navail := 2\<rparr>) =
     (Diverts (Caml_raise_constant (Val_long 7)), world_hi\<lparr>navail := 2\<rparr>)"
  using string_of_ocaml_string_option_result [of "Val_long 0" world_hi "Val_long 0" "[]"]
    string_of_ocaml_string_option_result [of "Val_block 1" world_hi "Val_block 0" "''hi''"]
    string_of_ocaml_string_option_result
      [of "Val_block 1" "world_hi\<lparr>navail := 2\<rparr>" "Val_block 0" "''hi''"]
  by (simp add: world_hi_def world_oom_def world0_def block_at_def Is_string_option_def
      Is_none_def Is_string_def raise_out_of_memory_def named_value_exn_def prog_defs
      caml_named_value_def load_value_def caml_raise_constant_def)

text \<open>
  The counterexample to C1 as stated: for the valid option \<open>Some "hi"\<close>, with two bytes
  left for \<open>malloc\<close>, the call returns no buffer; it diverts with the exception registered
  as \<open>"Out_of_memory"\<close>.
\<close>

theorem string_of_ocaml_string_option_out_of_memory:
  "Is_string_option (Val_block 1) (world_hi\<lparr>navail := 2\<rparr>) \<and>
   string_of_ocaml_string_option (Val_block 1) (world_hi\<lparr>navail := 2\<rparr>) =
     (Diverts (Caml_raise_constant (Val_long 7)), world_hi\<lparr>navail := 2\<rparr>)"
  by (simp add: world_hi_def world_oom_def world0_def block_at_def Is_string_option_def
      Is_none_def Is_string_def string_of_ocaml_string_option_def prog_defs Field_def
      string_ocaml_to_c_def caml_string_length_def int_of_long_def int_add_def INT_MAX_def
      size_t_of_int_def malloc_exn_def malloc_def raise_out_of_memory_def named_value_exn_def
      caml_named_value_def load_value_def caml_raise_constant_def)

text \<open>
  Why C1 is stated for strings of fewer than \<open>2^31 - 1\<close> bytes: the length is kept in an
  \<open>int\<close>. For a string of \<open>2^31 - 1\<close> bytes \<open>length + 1\<close> overflows, and for one of
  \<open>2^32 + 1\<close> bytes the \<open>int\<close> is 1 and the buffer holds two bytes of the string.
\<close>

lemma string_ocaml_to_c_length_overflows:
  "string_ocaml_to_c (Val_block 0)
     (world0\<lparr>mheap := [String_block (replicate (2 ^ 31 - 1) (CHR ''a''))], navail := 10\<rparr>) =
     (Undefined,
      world0\<lparr>mheap := [String_block (replicate (2 ^ 31 - 1) (CHR ''a''))], navail := 10\<rparr>)"
  by (simp add: string_ocaml_to_c_def prog_defs caml_string_length_def int_add_def
      block_at_def world0_def Is_string_def int_of_long_def INT_MAX_def)

lemma string_ocaml_to_c_length_wraps:
  "string_ocaml_to_c (Val_block 0)
     (world0\<lparr>mheap := [String_block (replicate (2 ^ 32 + 1) (CHR ''a''))], navail := 10\<rparr>) =
     (Returns (Native 0),
      world0\<lparr>mheap := [String_block (replicate (2 ^ 32 + 1) (CHR ''a''))],
             nheap := [Bytes [Some (CHR ''a''), Some (CHR ''a'')]], navail := 8\<rparr>)"
  by (simp add: string_ocaml_to_c_def prog_defs caml_string_length_def int_add_def
      malloc_exn_def malloc_def String_val_def memcpy_def load_bytes_def store_bytes_def
      block_at_def world0_def Is_string_def int_of_long_def INT_MAX_def size_t_of_int_def
      numeral_2_eq_2)



text \<open>
  C2 (as amended). For a valid int option: "none" returns 0 and leaves the world, and so
  the \<open>int\<close> behind \<open>i\<close>, as it was, whatever \<open>i\<close> is. "some(n)", for \<open>i\<close> pointing to an
  \<open>int\<close>, returns 1 and stores there \<open>n\<close> converted to \<open>int\<close>, which is \<open>n\<close> itself when
  \<open>- 2^31 \<le> n < 2^31\<close>; nothing else changes.
\<close>

theorem int_of_ocaml_int_option_result:
  "(v = Val_long 0 \<longrightarrow> int_of_ocaml_int_option v i w = (Returns 0, w)) \<and>
   (block_at v w = Some (Fields 0 [Val_long n]) \<longrightarrow> i = Native a \<longrightarrow> a < length (nheap w) \<longrightarrow>
      nheap w ! a = Int_obj old \<longrightarrow>
      int_of_ocaml_int_option v i w =
        (Returns 1, w\<lparr>nheap := (nheap w)[a := Int_obj (Some (int_of_long n))]\<rparr>) \<and>
      (- (2 ^ 31) \<le> n \<and> n < 2 ^ 31 \<longrightarrow> int_of_long n = n))"
  by (auto simp add: int_of_ocaml_int_option_def prog_defs Is_int_option_def Is_none_def
      Is_some_def Is_long_def Field_def Long_val_def store_int_def int_of_long_small
      block_at_def split: mlvalue.splits)

theorem int_of_ocaml_int_option_result_witness:
  "Is_int_option (Val_long 0) world_int \<and>
   int_of_ocaml_int_option (Val_long 0) (Native 0) world_int = (Returns 0, world_int) \<and>
   Is_int_option (Val_block 0) world_int \<and>
   int_of_ocaml_int_option (Val_block 0) (Native 0) world_int =
     (Returns 1, world_int\<lparr>nheap := [Int_obj (Some 42)]\<rparr>)"
  using int_of_ocaml_int_option_result [of "Val_long 0" "Native 0" world_int 0 0 None]
    int_of_ocaml_int_option_result [of "Val_block 0" "Native 0" world_int 42 0 "Some 5"]
  by (simp add: world_int_def world0_def block_at_def Is_int_option_def Is_none_def Is_long_def)

text \<open>
  The counterexample to C2 as stated: for the valid option \<open>Some 2147483648\<close> the call
  returns 1 and stores \<open>- 2147483648\<close>, which is not the wrapped integer.
\<close>

theorem int_of_ocaml_int_option_truncates:
  "Is_int_option (Val_block 1) world_int \<and>
   int_of_ocaml_int_option (Val_block 1) (Native 0) world_int =
     (Returns 1, world_int\<lparr>nheap := [Int_obj (Some (- 2147483648))]\<rparr>)"
  by (simp add: world_int_def world0_def block_at_def Is_int_option_def Is_none_def Is_long_def
      int_of_ocaml_int_option_def prog_defs Is_some_def Field_def Long_val_def store_int_def
      int_of_long_def)

subsection \<open>Arrays\<close>

text \<open>
  C6. For every conversion function \<open>f\<close>, \<open>array_map\<close> on an array without elements
  returns \<open>NULL\<close> and leaves the world as it was: nothing is allocated, and \<open>f\<close>, whatever
  it would do to the world, is not called.
\<close>

theorem array_map_empty:
  "block_at array w = Some (Fields t []) \<Longrightarrow> array_map array f w = (Returns Null, w)"
  by (simp add: array_map_def Wosize_val_def prog_defs)

theorem array_map_empty_witness:
  "block_at (Val_block 0) world_empty_array = Some (Fields 0 []) \<and>
   array_map (Val_block 0) string_ocaml_to_c world_empty_array =
     (Returns Null, world_empty_array)"
proof -
  have b: "block_at (Val_block 0) world_empty_array = Some (Fields 0 [])"
    by (simp add: block_at_def world_empty_array_def world0_def)
  from array_map_empty [OF b] b show ?thesis by simp
qed



lemma Field_Returns:
  "Field v i w = (Returns x, w') \<longleftrightarrow>
     (\<exists>t vs. block_at v w = Some (Fields t vs) \<and> i < length vs \<and> x = vs ! i \<and> w' = w)"
  by (cases "block_at v w") (auto simp add: Field_def ret_def undefined_behaviour_def split: mblock.splits)

lemma store_ptr_Returns:
  "store_ptr (Native p) k r w = (Returns u, w') \<longleftrightarrow>
     (\<exists>ps. p < length (nheap w) \<and> ptr_slots (nheap w ! p) = Some ps \<and> k < length ps \<and>
        w' = w\<lparr>nheap := (nheap w)[p := Ptrs (ps[k := Some r])]\<rparr>)"
  by (cases "ptr_slots (nheap w ! p)") (auto simp add: store_ptr_def ret_def undefined_behaviour_def)

lemma loop_step:
  "i < len \<Longrightarrow> array_map_loop f array na i len w = (Returns (), w') \<Longrightarrow>
     \<exists>u w1. seq (Field array (unat i)) (\<lambda>v. seq (f v) (\<lambda>r. store_ptr na (unat i) r)) w = (Returns u, w1) \<and>
        array_map_loop f array na (i + 1) len w1 = (Returns (), w')"
  apply (subst (asm) array_map_loop.simps)
  apply (simp split: prod.splits outcome.splits)
  done

lemma loop_done:
  "\<not> i < len \<Longrightarrow> array_map_loop f array na i len w = (Returns (), w)"
  by (subst array_map_loop.simps) simp


lemma block_at_mheap: "mheap w1 = mheap w \<Longrightarrow> block_at v w1 = block_at v w"
  by (cases v) (simp_all add: block_at_def)

lemma body_Returns:
  "seq (Field array k) (\<lambda>v. seq (f v) (\<lambda>r. store_ptr (Native p) k r)) w = (Returns u, w1) \<longleftrightarrow>
     (\<exists>t vs r w2 ps. block_at array w = Some (Fields t vs) \<and> k < length vs \<and>
        f (vs ! k) w = (Returns r, w2) \<and> p < length (nheap w2) \<and>
        ptr_slots (nheap w2 ! p) = Some ps \<and> k < length ps \<and>
        w1 = w2\<lparr>nheap := (nheap w2)[p := Ptrs (ps[k := Some r])]\<rparr>)"
  by (simp add: seq_Returns Field_Returns store_ptr_Returns) blast

lemma malloc_exn_Returns_iff:
  "malloc_exn sz w = (Returns q, w1) \<longleftrightarrow>
     sz \<le> navail w \<and> q = Native (length (nheap w)) \<and>
     w1 = w\<lparr>nheap := nheap w @ [Bytes (replicate sz None)], navail := navail w - sz\<rparr>"
proof (cases "sz \<le> navail w")
  case True
  then show ?thesis
    by (auto simp add: malloc_exn_def malloc_def prog_defs)
next
  case False
  obtain d where "raise_out_of_memory w = (Diverts d, w)"
    using raise_out_of_memory_diverts by blast
  then show ?thesis
    using False by (simp add: malloc_exn_def malloc_def prog_defs)
qed


lemma array_map_unfold:
  assumes "block_at array w = Some (Fields t vs)" and "0 < length vs" and "length vs < 2 ^ 32"
  shows "array_map array f w =
           seq (malloc_exn (sizeof_char_ptr * length vs)) (\<lambda>new_array.
           seq (array_map_loop f array new_array 0 (word_of_nat (length vs))) (\<lambda>_.
           ret new_array)) w"
    and "unat (word_of_nat (length vs) :: 32 word) = length vs"
proof -
  show u: "unat (word_of_nat (length vs) :: 32 word) = length vs"
    using assms(3) by (simp add: unat_of_nat)
  then have "(word_of_nat (length vs) :: 32 word) \<noteq> 0"
    using assms(2) by (metis less_numeral_extra(3) unat_0)
  then show "array_map array f w =
           seq (malloc_exn (sizeof_char_ptr * length vs)) (\<lambda>new_array.
           seq (array_map_loop f array new_array 0 (word_of_nat (length vs))) (\<lambda>_.
           ret new_array)) w"
    using assms(1) by (simp add: array_map_def Wosize_val_def seq_def ret_def u Let_def)
qed










lemma observed_Returns:
  "keeps_log f \<Longrightarrow> observed array f v w = (Returns r, w2) \<Longrightarrow>
     (\<exists>w0. f v w = (Returns r, w0) \<and> mheap w2 = mheap w0 \<and> nheap w2 = nheap w0 \<and>
        world.more w2 = world.more w @ [(v, block_at array w)])"
  unfolding keeps_log_def observed_def
  by (cases "f v w") (auto, metis snd_conv)

lemma array_map_loop_log:
  "\<lbrakk>g = observed array f; keeps_log f; na = Native p;
    array_map_loop g array na i len w = (Returns (), w')\<rbrakk> \<Longrightarrow>
   \<exists>es. world.more w' = world.more w @ es \<and> length es = unat len - unat i \<and>
     (\<forall>j < length es. \<exists>tj vsj. snd (es ! j) = Some (Fields tj vsj) \<and>
        unat i + j < length vsj \<and> fst (es ! j) = vsj ! (unat i + j)) \<and>
     (keeps_managed_heap f \<longrightarrow> mheap w' = mheap w \<and> (\<forall>j < length es. snd (es ! j) = block_at array w))"
proof (induction g array na i len w rule: array_map_loop.induct)
  case (1 g array na i len w)
  note g = \<open>g = observed array f\<close> and kl = \<open>keeps_log f\<close> and na = \<open>na = Native p\<close>
    and run = \<open>array_map_loop g array na i len w = (Returns (), w')\<close>
  show ?case
  proof (cases "i < len")
    case False
    then have w': "w' = w"
      using run loop_done [of i len g array na w] by simp
    have "unat len - unat i = 0"
      using False by (simp add: word_less_nat_alt)
    then show ?thesis
      by (simp add: w')
  next
    case True
    then have i: "unat i < unat len" and i1: "unat (i + 1) = Suc (unat i)"
      by unat_arith+
    obtain u w1 where
      body: "seq (Field array (unat i)) (\<lambda>v. seq (g v) (\<lambda>r. store_ptr na (unat i) r)) w = (Returns u, w1)"
      and rest: "array_map_loop g array na (i + 1) len w1 = (Returns (), w')"
      using loop_step [OF True run] by blast
    from body obtain t vs r w2 ps where
      arr: "block_at array w = Some (Fields t vs)" and iv: "unat i < length vs"
      and gr: "g (vs ! unat i) w = (Returns r, w2)"
      and w1: "w1 = w2\<lparr>nheap := (nheap w2)[p := Ptrs (ps[unat i := Some r])]\<rparr>"
      unfolding na body_Returns by auto
    from observed_Returns [OF kl gr [unfolded g]] obtain w0 where
      fr: "f (vs ! unat i) w = (Returns r, w0)" and mh2: "mheap w2 = mheap w0"
      and log2: "world.more w2 = world.more w @ [(vs ! unat i, block_at array w)]"
      by blast
    have log1: "world.more w1 = world.more w @ [(vs ! unat i, Some (Fields t vs))]"
      by (simp add: w1 log2 arr)
    from "1.IH" [OF True body [symmetric] refl g kl na rest]
    obtain es where
      more': "world.more w' = world.more w1 @ es" and len: "length es = unat len - unat (i + 1)"
      and ok: "\<forall>j < length es. \<exists>tj vsj. snd (es ! j) = Some (Fields tj vsj) \<and>
        unat (i + 1) + j < length vsj \<and> fst (es ! j) = vsj ! (unat (i + 1) + j)"
      and keep: "keeps_managed_heap f \<longrightarrow>
        mheap w' = mheap w1 \<and> (\<forall>j < length es. snd (es ! j) = block_at array w1)"
      by blast
    let ?e = "(vs ! unat i, Some (Fields t vs))"
    have a: "world.more w' = world.more w @ (?e # es)"
      by (simp add: more' log1)
    have b: "length (?e # es) = unat len - unat i"
      using i by (simp add: len i1)
    have c: "\<forall>j < length (?e # es). \<exists>tj vsj. snd ((?e # es) ! j) = Some (Fields tj vsj) \<and>
        unat i + j < length vsj \<and> fst ((?e # es) ! j) = vsj ! (unat i + j)"
    proof (intro allI impI)
      fix j assume j: "j < length (?e # es)"
      show "\<exists>tj vsj. snd ((?e # es) ! j) = Some (Fields tj vsj) \<and>
        unat i + j < length vsj \<and> fst ((?e # es) ! j) = vsj ! (unat i + j)"
      proof (cases j)
        case 0
        then show ?thesis using iv by simp
      next
        case (Suc k)
        then have "k < length es" using j by simp
        then show ?thesis using ok by (simp add: Suc i1)
      qed
    qed
    have d: "keeps_managed_heap f \<longrightarrow>
        mheap w' = mheap w \<and> (\<forall>j < length (?e # es). snd ((?e # es) ! j) = block_at array w)"
    proof
      assume kh: "keeps_managed_heap f"
      have "mheap w0 = mheap w"
        using kh fr unfolding keeps_managed_heap_def by (metis snd_conv)
      then have mh1: "mheap w1 = mheap w"
        by (simp add: w1 mh2)
      then have b1: "block_at array w1 = block_at array w"
        by (rule block_at_mheap)
      have "\<forall>j < length (?e # es). snd ((?e # es) ! j) = block_at array w"
      proof (intro allI impI)
        fix j assume j: "j < length (?e # es)"
        show "snd ((?e # es) ! j) = block_at array w"
        proof (cases j)
          case 0
          then show ?thesis by (simp add: arr)
        next
          case (Suc k)
          then have "k < length es" using j by simp
          then show ?thesis using keep kh b1 by (simp add: Suc)
        qed
      qed
      then show "mheap w' = mheap w \<and> (\<forall>j < length (?e # es). snd ((?e # es) ! j) = block_at array w)"
        using keep kh mh1 by simp
    qed
    from a b c d show ?thesis
      by blast
  qed
qed

text \<open>
  C10 (as amended). Let the managed array have \<open>n\<close> elements, \<open>0 < n < 2^32\<close>, and let the
  calls of \<open>f\<close> be observed. Whenever \<open>array_map\<close> returns normally, it has called \<open>f\<close>
  exactly \<open>n\<close> times, and the call number \<open>j\<close> (from 0) had as its argument the element at
  index \<open>j\<close> of the array as the array was when that call was made. When \<open>f\<close> leaves the
  managed heap as it is, the arguments of the calls are the elements of the array, in
  their order, each once.
\<close>

theorem array_map_calls_in_order:
  assumes arr: "block_at array w = Some (Fields t vs)"
    and n: "0 < length vs" "length vs < 2 ^ 32"
    and kl: "keeps_log f"
    and run: "array_map array (observed array f) w = (Returns q, w')"
  shows "\<exists>es. world.more w' = world.more w @ es \<and> length es = length vs \<and>
           (\<forall>j < length vs. \<exists>tj vsj. snd (es ! j) = Some (Fields tj vsj) \<and>
              j < length vsj \<and> fst (es ! j) = vsj ! j) \<and>
           (keeps_managed_heap f \<longrightarrow> map fst es = vs)"
proof -
  let ?len = "word_of_nat (length vs) :: 32 word"
  let ?g = "observed array f"
  let ?w1 = "w\<lparr>nheap := nheap w @ [Bytes (replicate (sizeof_char_ptr * length vs) None)],
               navail := navail w - sizeof_char_ptr * length vs\<rparr>"
  note unf = array_map_unfold [OF arr n]
  from run obtain na w1 u where m: "malloc_exn (sizeof_char_ptr * length vs) w = (Returns na, w1)"
    and loop: "array_map_loop ?g array na 0 ?len w1 = (Returns u, w')"
    by (auto simp add: unf(1) seq_Returns ret_def)
  from m have na: "na = Native (length (nheap w))" and w1: "w1 = ?w1"
    by (simp_all add: malloc_exn_Returns_iff)
  have loop': "array_map_loop ?g array na 0 ?len ?w1 = (Returns (), w')"
    using loop by (simp add: w1)
  have arr1: "block_at array ?w1 = Some (Fields t vs)"
    using arr block_at_mheap [of ?w1 w array] by simp
  from array_map_loop_log [OF refl kl na loop']
  obtain es where more': "world.more w' = world.more w @ es" and len: "length es = length vs"
    and ok: "\<forall>j < length vs. \<exists>tj vsj. snd (es ! j) = Some (Fields tj vsj) \<and>
        j < length vsj \<and> fst (es ! j) = vsj ! j"
    and keep: "keeps_managed_heap f \<longrightarrow> (\<forall>j < length vs. snd (es ! j) = Some (Fields t vs))"
    by (auto simp add: unf(2) arr1)
  have "keeps_managed_heap f \<longrightarrow> map fst es = vs"
  proof
    assume kh: "keeps_managed_heap f"
    show "map fst es = vs"
    proof (rule nth_equalityI)
      show "length (map fst es) = length vs" by (simp add: len)
      fix j assume "j < length (map fst es)"
      then have j: "j < length vs" by (simp add: len)
      then obtain tj vsj where "snd (es ! j) = Some (Fields tj vsj)" "fst (es ! j) = vsj ! j"
        using ok by blast
      moreover have "snd (es ! j) = Some (Fields t vs)"
        using keep kh j by blast
      ultimately show "map fst es ! j = vs ! j"
        using j by (simp add: len)
    qed
  qed
  then show ?thesis
    using more' len ok by blast
qed

lemmas string_ocaml_to_c_defs =
  string_ocaml_to_c_def prog_defs caml_string_length_def int_add_def malloc_exn_def malloc_def
  raise_out_of_memory_def named_value_exn_def caml_named_value_def caml_failwith_def
  load_value_def caml_raise_constant_def String_val_def memcpy_def load_bytes_def
  store_bytes_def Let_def

lemma string_ocaml_to_c_mheap: "mheap (snd (string_ocaml_to_c v w)) = mheap w"
  by (simp add: string_ocaml_to_c_defs block_at_def
      split: option.splits mblock.splits mlvalue.splits nobj.splits)

lemma string_ocaml_to_c_more: "world.more (snd (string_ocaml_to_c v w)) = world.more w"
  by (simp add: string_ocaml_to_c_defs block_at_def
      split: option.splits mblock.splits mlvalue.splits nobj.splits)

lemma string_ocaml_to_c_nheap: "\<exists>ys. nheap (snd (string_ocaml_to_c v w)) = nheap w @ ys"
  by (simp add: string_ocaml_to_c_defs block_at_def nth_append
      split: option.splits mblock.splits mlvalue.splits nobj.splits)


lemma keeps_string_ocaml_to_c:
  "keeps_managed_heap string_ocaml_to_c" "keeps_native_objects string_ocaml_to_c"
  "keeps_log string_ocaml_to_c"
  by (simp_all add: keeps_managed_heap_def keeps_native_objects_def keeps_log_def
      string_ocaml_to_c_mheap string_ocaml_to_c_nheap string_ocaml_to_c_more)

lemma replicate_two: "replicate 2 x = [x, x]"
  by (simp add: numeral_2_eq_2)

lemmas array_map_eval =
  array_map_def array_map_loop.simps Wosize_val_def Field_def store_ptr_def ptr_slots_def
  sizeof_char_ptr_def block_at_def Is_string_def list_all_iff replicate_two

lemmas out_of_memory_eval =
  malloc_exn_def malloc_def raise_out_of_memory_def named_value_exn_def caml_named_value_def
  load_value_def caml_raise_constant_def prog_defs

lemma array_map_string_ocaml_to_c_run:
  "array_map (Val_block 2) string_ocaml_to_c world_strs =
     (Returns (Native 0),
      world_strs\<lparr>nheap := [Ptrs [Some (Native 1), Some (Native 2)],
                           Bytes (map Some (''hi'' @ [CHR 0x00])),
                           Bytes (map Some (''caml'' @ [CHR 0x00]))],
                 navail := 76\<rparr>)"
  by (simp add: world_strs_def array_map_eval malloc_exn_def malloc_def prog_defs
      string_ocaml_to_c_copy [where s = "''hi''"] string_ocaml_to_c_copy [where s = "''caml''"])





text \<open>
  Why C5 and C10 are stated for fewer than \<open>2^32\<close> elements: the length is kept in an
  \<open>unsigned int\<close>. For an array of \<open>2^32\<close> elements it is 0, and \<open>array_map\<close> returns
  \<open>NULL\<close> without a call of \<open>f\<close>.
\<close>

lemma array_map_length_wraps:
  "array_map (Val_block 0) f (world0\<lparr>mheap := [Fields 0 (replicate (2 ^ 32) (Val_long 0))]\<rparr>) =
     (Returns Null, world0\<lparr>mheap := [Fields 0 (replicate (2 ^ 32) (Val_long 0))]\<rparr>)"
  by (simp add: array_map_def Wosize_val_def block_at_def prog_defs world0_def)

lemma array_map_observed_run:
  "array_map (Val_block 2) (observed (Val_block 2) string_ocaml_to_c) world_strs =
     (Returns (Native 0),
      world_strs\<lparr>nheap := [Ptrs [Some (Native 1), Some (Native 2)],
                           Bytes (map Some (''hi'' @ [CHR 0x00])),
                           Bytes (map Some (''caml'' @ [CHR 0x00]))],
                 navail := 76,
                 world.more := [(Val_block 0, Some (Fields 0 [Val_block 0, Val_block 1])),
                                (Val_block 1, Some (Fields 0 [Val_block 0, Val_block 1]))]\<rparr>)"
  by (simp add: world_strs_def array_map_eval malloc_exn_def malloc_def prog_defs observed_def
      string_ocaml_to_c_copy [where s = "''hi''"] string_ocaml_to_c_copy [where s = "''caml''"])

theorem array_map_calls_in_order_witness:
  "block_at (Val_block 2) world_strs = Some (Fields 0 [Val_block 0, Val_block 1]) \<and>
   keeps_log string_ocaml_to_c \<and>
   array_map (Val_block 2) (observed (Val_block 2) string_ocaml_to_c) world_strs =
     (Returns (Native 0),
      world_strs\<lparr>nheap := [Ptrs [Some (Native 1), Some (Native 2)],
                           Bytes (map Some (''hi'' @ [CHR 0x00])),
                           Bytes (map Some (''caml'' @ [CHR 0x00]))],
                 navail := 76,
                 world.more := [(Val_block 0, Some (Fields 0 [Val_block 0, Val_block 1])),
                                (Val_block 1, Some (Fields 0 [Val_block 0, Val_block 1]))]\<rparr>) \<and>
   (\<exists>es. [(Val_block 0, Some (Fields 0 [Val_block 0, Val_block 1])),
           (Val_block 1, Some (Fields 0 [Val_block 0, Val_block 1]))] = es \<and>
      length es = length [Val_block 0, Val_block 1] \<and>
      map fst es = [Val_block 0, Val_block 1])"
proof -
  have arr: "block_at (Val_block 2) world_strs = Some (Fields 0 [Val_block 0, Val_block 1])"
    by (simp add: block_at_def world_strs_def)
  have n: "0 < length [Val_block 0, Val_block 1]" "length [Val_block 0, Val_block 1] < 2 ^ 32"
    by simp_all
  have kh: "keeps_managed_heap (string_ocaml_to_c :: mlvalue \<Rightarrow> (ptr, call_log) prog)"
    by (rule keeps_string_ocaml_to_c)
  from array_map_calls_in_order [OF arr n keeps_string_ocaml_to_c(3) array_map_observed_run]
  obtain es where "world.more (world_strs\<lparr>nheap := [Ptrs [Some (Native 1), Some (Native 2)],
                           Bytes (map Some (''hi'' @ [CHR 0x00])),
                           Bytes (map Some (''caml'' @ [CHR 0x00]))],
                 navail := 76,
                 world.more := [(Val_block 0, Some (Fields 0 [Val_block 0, Val_block 1])),
                                (Val_block 1, Some (Fields 0 [Val_block 0, Val_block 1]))]\<rparr>)
       = world.more world_strs @ es"
    and "length es = length [Val_block 0, Val_block 1]"
    and "keeps_managed_heap (string_ocaml_to_c :: mlvalue \<Rightarrow> (ptr, call_log) prog) \<longrightarrow>
           map fst es = [Val_block 0, Val_block 1]"
    by (elim exE conjE) (rule that; assumption)
  then have "\<exists>es. [(Val_block 0, Some (Fields 0 [Val_block 0, Val_block 1])),
           (Val_block 1, Some (Fields 0 [Val_block 0, Val_block 1]))] = es \<and>
      length es = length [Val_block 0, Val_block 1] \<and>
      map fst es = [Val_block 0, Val_block 1]"
    using kh by (simp add: world_strs_def)
  with arr keeps_string_ocaml_to_c(3) array_map_observed_run show ?thesis
    by (intro conjI)
qed

text \<open>
  The counterexample to C10 as stated: for the array of two strings, with 8 bytes left
  for \<open>malloc\<close>, \<open>array_map\<close> diverts and the log of calls is still empty: \<open>f\<close> was not
  called at all.
\<close>

theorem array_map_no_call_when_out_of_memory:
  "block_at (Val_block 2) (world_strs\<lparr>navail := 8\<rparr>) =
     Some (Fields 0 [Val_block 0, Val_block 1]) \<and>
   array_map (Val_block 2) (observed (Val_block 2) string_ocaml_to_c) (world_strs\<lparr>navail := 8\<rparr>) =
     (Diverts (Caml_raise_constant (Val_long 7)), world_strs\<lparr>navail := 8\<rparr>) \<and>
   world.more (world_strs\<lparr>navail := 8\<rparr>) = []"
  by (simp add: world_strs_def array_map_eval out_of_memory_eval)

end
